theory Spec2Isabelle
  imports Complex_Main
begin

section \<open>Values of the host language\<close>

text \<open>
  The abilities of \<^verbatim>\<open>src/abilities/power-meter.js\<close> read numeric device properties and
  hand them to \<^verbatim>\<open>Math.max\<close>, \<^verbatim>\<open>Math.min\<close> and \<^verbatim>\<open>Math.round\<close>. A Number is a finite
  value, one of the two infinities, or NaN. Finite doubles are rationals, and the three
  functions used here never leave the set of their arguments and the integers, so a finite
  Number is modelled as a \<^typ>\<open>rat\<close>. The sign of zero is not modelled.
\<close>

datatype number = NaN | NegInf | Fin rat | PosInf

text \<open>What a property read \<^verbatim>\<open>device[name]\<close> can give: a Number, \<^verbatim>\<open>null\<close>, or \<^verbatim>\<open>undefined\<close>.\<close>

datatype jsval = Undefined | Null | Number number

text \<open>The coercion that \<^verbatim>\<open>Math.max\<close> and \<^verbatim>\<open>Math.min\<close> apply to each argument.\<close>

fun ToNumber :: "jsval \<Rightarrow> number" where
  "ToNumber Undefined = NaN"
| "ToNumber Null = Fin 0"
| "ToNumber (Number n) = n"

fun Math_max :: "number \<Rightarrow> number \<Rightarrow> number" where
  "Math_max NaN y = NaN"
| "Math_max x NaN = NaN"
| "Math_max PosInf y = PosInf"
| "Math_max x PosInf = PosInf"
| "Math_max NegInf y = y"
| "Math_max x NegInf = x"
| "Math_max (Fin a) (Fin b) = Fin (max a b)"

fun Math_min :: "number \<Rightarrow> number \<Rightarrow> number" where
  "Math_min NaN y = NaN"
| "Math_min x NaN = NaN"
| "Math_min NegInf y = NegInf"
| "Math_min x NegInf = NegInf"
| "Math_min PosInf y = y"
| "Math_min x PosInf = x"
| "Math_min (Fin a) (Fin b) = Fin (min a b)"

text \<open>
  \<^verbatim>\<open>Math.round\<close> on a finite argument: the nearest integer, a tie going towards
  plus infinity.
\<close>

definition Math_round :: "rat \<Rightarrow> int" where
  "Math_round x = \<lfloor>x + 1 / 2\<rfloor>"

text \<open>
  A property name held by an ability is a string or \<^verbatim>\<open>null\<close>. The test
  \<^verbatim>\<open>if (this._electricCurrentProperty)\<close> takes \<^verbatim>\<open>null\<close> and the empty string as false.
  Used as a property key or concatenated to a string, \<^verbatim>\<open>null\<close> becomes the text "null".
\<close>

fun truthy :: "string option \<Rightarrow> bool" where
  "truthy None = False"
| "truthy (Some s) = (s \<noteq> [])"

fun ToString :: "string option \<Rightarrow> string" where
  "ToString None = ''null''"
| "ToString (Some s) = s"

section \<open>The objects of the host framework\<close>

datatype error = TypeError

datatype characteristic =
    ConsumptionCharacteristic
  | ElectricCurrentCharacteristic
  | VoltageCharacteristic
  | TotalConsumptionCharacteristic

text \<open>
  Service types are told apart by their UUID. The two types this file names are constants;
  every other type is \<open>OtherUUID\<close>.
\<close>

datatype uuid = PowerMeterService_UUID | FakeGatoHistoryService_UUID | OtherUUID nat

text \<open>A service object: its identity and the UUID of its type.\<close>

record service =
  sid :: nat
  UUID :: uuid

text \<open>
  The function objects registered as listeners. The three handlers of
  \<^verbatim>\<open>PowerMeterAbility\<close> and the handler of \<^verbatim>\<open>PowerConsumptionAbility\<close> are methods of
  their classes, hence four distinct functions; \<open>OtherHandler\<close> stands for any function
  of another module.
\<close>

datatype handler =
    PowerMeterAbility_consumptionChangeHandler
  | PowerMeterAbility_electricCurrentChangeHandler
  | PowerMeterAbility_voltageChangeHandler
  | PowerConsumptionAbility_consumptionChangeHandler
  | OtherHandler nat

text \<open>A registration on the device's emitter: event name, handler, context object.\<close>

type_synonym listener = "string \<times> handler \<times> nat"

text \<open>One call of \<^verbatim>\<open>setCharacteristic\<close> or \<^verbatim>\<open>setValue\<close>: the service object, the
  characteristic, the value.\<close>

type_synonym char_write = "nat \<times> characteristic \<times> jsval"

text \<open>The options object passed to the history-service constructor (without the logger).\<close>

record options =
  storage :: string
  path :: string
  filename :: string
  minutes :: nat

text \<open>
  The object the history-service constructor returns: its own identity, the kind it was
  given, its options, and the service it put on the accessory (its \<^verbatim>\<open>.service\<close>).
\<close>

record history =
  hid :: nat
  kind :: string
  opts :: options
  inner :: service

record entry =
  entry_time :: int
  entry_power :: number

text \<open>
  Everything the two abilities read or change: the device (identifier, properties,
  listeners of its emitter), the platform accessory (its \<^verbatim>\<open>services\<close> array), the calls
  made on service objects (characteristic writes, history-service constructions,
  \<^verbatim>\<open>addEntry\<close> calls, each in call order), the clock in milliseconds since the epoch
  (\<^verbatim>\<open>new Date().valueOf()\<close>), the storage path of the host, and the next unused object
  identity. The references \<^verbatim>\<open>this.device\<close>, \<^verbatim>\<open>this.log\<close> and
  \<^verbatim>\<open>this.platformAccessory\<close> that \<^verbatim>\<open>setup\<close> stores all point into this one accessory.
  Calls of the logger are not part of the state.
\<close>

record world =
  dev_id :: string
  props :: "string \<Rightarrow> jsval"
  listeners :: "listener list"
  services :: "service list"
  writes :: "char_write list"
  constructed :: "history list"
  entries :: "(nat \<times> entry) list"
  clock :: int
  storagePath :: string
  next_oid :: nat

subsection \<open>The device's event emitter\<close>

text \<open>
  Modelled from the spec: the device's event-subscription interface
  \<^verbatim>\<open>on(eventName, handler, context)\<close> / \<^verbatim>\<open>removeListener(eventName, handler, context)\<close>,
  which is not part of this repository. \<^verbatim>\<open>on\<close> adds one registration after the
  existing ones; \<^verbatim>\<open>removeListener\<close> drops the registrations of that event with that
  handler and that context and keeps every other registration in place.
\<close>

definition on :: "string \<Rightarrow> handler \<Rightarrow> nat \<Rightarrow> world \<Rightarrow> world" where
  "on ev h c w = w\<lparr>listeners := listeners w @ [(ev, h, c)]\<rparr>"

definition removeListener :: "string \<Rightarrow> handler \<Rightarrow> nat \<Rightarrow> world \<Rightarrow> world" where
  "removeListener ev h c w = w\<lparr>listeners := filter (\<lambda>l. l \<noteq> (ev, h, c)) (listeners w)\<rparr>"

subsection \<open>The platform accessory and its services\<close>

text \<open>
  Modelled from the spec: the platform accessory's \<^verbatim>\<open>getService\<close>, \<^verbatim>\<open>addService\<close>
  and \<^verbatim>\<open>removeService\<close>, which belong to the host. \<^verbatim>\<open>getService(Type)\<close> gives the
  first service of that type, or \<^verbatim>\<open>undefined\<close>. \<^verbatim>\<open>removeService(s)\<close> deletes \<open>s\<close> from
  the array that \<^verbatim>\<open>services\<close> denotes, in place (the later services move down one index).
\<close>

definition getService :: "world \<Rightarrow> uuid \<Rightarrow> service option" where
  "getService w u = find (\<lambda>s. UUID s = u) (services w)"

definition addService :: "service \<Rightarrow> world \<Rightarrow> world" where
  "addService s w = w\<lparr>services := services w @ [s]\<rparr>"

definition removeService :: "service \<Rightarrow> service list \<Rightarrow> service list" where
  "removeService s svcs = remove1 s svcs"

text \<open>A write to a characteristic of the service object with identity \<open>i\<close>.\<close>

definition setCharacteristic :: "nat \<Rightarrow> characteristic \<Rightarrow> jsval \<Rightarrow> world \<Rightarrow> world" where
  "setCharacteristic i c v w = w\<lparr>writes := writes w @ [(i, c, v)]\<rparr>"

text \<open>
  Modelled from the spec: the constructor of the power-meter service type, defined in
  \<^verbatim>\<open>util/custom-services\<close>, which is not under src. It gives a new service object of
  that type.
\<close>

definition PowerMeterService_new :: "world \<Rightarrow> service \<times> world" where
  "PowerMeterService_new w =
     (\<lparr>sid = next_oid w, UUID = PowerMeterService_UUID\<rparr>, w\<lparr>next_oid := next_oid w + 1\<rparr>)"

text \<open>
  Modelled from the spec: the history-service constructor taking (kind, accessory,
  options), of an external library. As the comment in \<^verbatim>\<open>setup\<close> says, the constructor
  creates the service and adds it to the platform accessory. \<^verbatim>\<open>addEntry\<close> appends one
  sample to the log of that history object.
\<close>

definition FakeGatoHistoryService_new :: "string \<Rightarrow> options \<Rightarrow> world \<Rightarrow> history \<times> world" where
  "FakeGatoHistoryService_new k opt w =
     (let s = \<lparr>sid = next_oid w + 1, UUID = FakeGatoHistoryService_UUID\<rparr>;
          h = \<lparr>hid = next_oid w, kind = k, opts = opt, inner = s\<rparr>
      in (h, w\<lparr>services := services w @ [s],
               constructed := constructed w @ [h],
               next_oid := next_oid w + 2\<rparr>))"

definition addEntry :: "history \<Rightarrow> entry \<Rightarrow> world \<Rightarrow> world" where
  "addEntry h e w = w\<lparr>entries := entries w @ [(hid h, e)]\<rparr>"

subsection \<open>The base class\<close>

text \<open>
  Modelled from the spec: the hooks \<^verbatim>\<open>_setupEventHandlers\<close> and \<^verbatim>\<open>detach\<close> of the base
  class \<^verbatim>\<open>Ability\<close> (\<^verbatim>\<open>./base\<close>, not under src), which the two abilities call through
  \<^verbatim>\<open>super\<close>. The spec counts one listener per configured property and nothing else, so
  the base hooks leave the emitter, the services and the logs as they are.
\<close>

definition Ability_setupEventHandlers :: "world \<Rightarrow> world" where
  "Ability_setupEventHandlers w = w"

definition Ability_detach :: "world \<Rightarrow> world" where
  "Ability_detach w = w"

section \<open>PowerMeterAbility\<close>

text \<open>The fields the constructor sets, and the identity of the ability object (the
  context of its listeners).\<close>

record PowerMeterAbility =
  pm_this :: nat
  pm_consumptionProperty :: string
  pm_electricCurrentProperty :: "string option"
  pm_voltageProperty :: "string option"

definition pm_service :: "world \<Rightarrow> service option" where
  "pm_service w = getService w PowerMeterService_UUID"

definition pm_consumption :: "PowerMeterAbility \<Rightarrow> world \<Rightarrow> number" where
  "pm_consumption a w =
     Math_min (Math_max (ToNumber (props w (pm_consumptionProperty a))) (Fin 0)) (Fin 65535)"

definition pm_electricCurrent :: "PowerMeterAbility \<Rightarrow> world \<Rightarrow> jsval" where
  "pm_electricCurrent a w = props w (ToString (pm_electricCurrentProperty a))"

definition pm_voltage :: "PowerMeterAbility \<Rightarrow> world \<Rightarrow> jsval" where
  "pm_voltage a w = props w (ToString (pm_voltageProperty a))"

definition pm_createService :: "PowerMeterAbility \<Rightarrow> world \<Rightarrow> service \<times> world" where
  "pm_createService a w =
     (let (service, w0) = PowerMeterService_new w;
          w1 = setCharacteristic (sid service) ConsumptionCharacteristic
                 (Number (pm_consumption a w0)) w0;
          w2 = (if truthy (pm_electricCurrentProperty a)
                then setCharacteristic (sid service) ElectricCurrentCharacteristic
                       (pm_electricCurrent a w1) w1
                else w1);
          w3 = (if truthy (pm_voltageProperty a)
                then setCharacteristic (sid service) VoltageCharacteristic
                       (pm_voltage a w2) w2
                else w2)
      in (service, w3))"

definition pm_setupEventHandlers :: "PowerMeterAbility \<Rightarrow> world \<Rightarrow> world" where
  "pm_setupEventHandlers a w =
     (let w0 = Ability_setupEventHandlers w;
          w1 = on (''change:'' @ pm_consumptionProperty a)
                 PowerMeterAbility_consumptionChangeHandler (pm_this a) w0;
          w2 = (if truthy (pm_electricCurrentProperty a)
                then on (''change:'' @ ToString (pm_electricCurrentProperty a))
                       PowerMeterAbility_electricCurrentChangeHandler (pm_this a) w1
                else w1);
          w3 = (if truthy (pm_voltageProperty a)
                then on (''change:'' @ ToString (pm_voltageProperty a))
                       PowerMeterAbility_voltageChangeHandler (pm_this a) w2
                else w2)
      in w3)"

text \<open>
  The three change handlers. The argument \<open>newValue\<close> is only logged; the value
  written is read again from the device. \<^verbatim>\<open>this.service\<close> is \<^verbatim>\<open>undefined\<close> when the
  accessory has no power-meter service, and the call on it throws.
\<close>

definition pm_consumptionChangeHandler ::
  "PowerMeterAbility \<Rightarrow> jsval \<Rightarrow> world \<Rightarrow> error + world" where
  "pm_consumptionChangeHandler a newValue w =
     (case pm_service w of
        None \<Rightarrow> Inl TypeError
      | Some s \<Rightarrow> Inr (setCharacteristic (sid s) ConsumptionCharacteristic
                         (Number (pm_consumption a w)) w))"

definition pm_electricCurrentChangeHandler ::
  "PowerMeterAbility \<Rightarrow> jsval \<Rightarrow> world \<Rightarrow> error + world" where
  "pm_electricCurrentChangeHandler a newValue w =
     (case pm_service w of
        None \<Rightarrow> Inl TypeError
      | Some s \<Rightarrow> Inr (setCharacteristic (sid s) ElectricCurrentCharacteristic
                         (pm_electricCurrent a w) w))"

definition pm_voltageChangeHandler ::
  "PowerMeterAbility \<Rightarrow> jsval \<Rightarrow> world \<Rightarrow> error + world" where
  "pm_voltageChangeHandler a newValue w =
     (case pm_service w of
        None \<Rightarrow> Inl TypeError
      | Some s \<Rightarrow> Inr (setCharacteristic (sid s) VoltageCharacteristic
                         (pm_voltage a w) w))"

definition pm_detach :: "PowerMeterAbility \<Rightarrow> world \<Rightarrow> world" where
  "pm_detach a w =
     (let w1 = removeListener (''change:'' @ pm_consumptionProperty a)
                 PowerMeterAbility_consumptionChangeHandler (pm_this a) w;
          w2 = (if truthy (pm_electricCurrentProperty a)
                then removeListener (''change:'' @ ToString (pm_electricCurrentProperty a))
                       PowerMeterAbility_electricCurrentChangeHandler (pm_this a) w1
                else w1);
          w3 = (if truthy (pm_voltageProperty a)
                then removeListener (''change:'' @ ToString (pm_voltageProperty a))
                       PowerMeterAbility_voltageChangeHandler (pm_this a) w2
                else w2)
      in Ability_detach w3)"

text \<open>
  Modelled from the spec: \<^verbatim>\<open>setup\<close> of the base class, which \<^verbatim>\<open>PowerMeterAbility\<close>
  inherits and which is not under src. "On attach, creates the service, seeds its
  characteristics with current (clamped) values, and registers one change listener per
  configured property."
\<close>

definition pm_setup :: "PowerMeterAbility \<Rightarrow> world \<Rightarrow> world" where
  "pm_setup a w =
     (let (service, w1) = pm_createService a w
      in pm_setupEventHandlers a (addService service w1))"

section \<open>PowerConsumptionAbility\<close>

text \<open>
  The field the constructor sets, the identity of the ability object, and the field
  \<^verbatim>\<open>_service\<close>: \<open>None\<close> until \<^verbatim>\<open>setup\<close> assigns a history object, so that
  \<^verbatim>\<open>this._service instanceof FakeGatoHistoryService\<close> is \<open>pc_service a \<noteq> None\<close>.
\<close>

record PowerConsumptionAbility =
  pc_this :: nat
  pc_consumptionProperty :: string
  pc_service :: "history option"

definition pc_consumption :: "PowerConsumptionAbility \<Rightarrow> world \<Rightarrow> number" where
  "pc_consumption a w =
     Math_min (Math_max (ToNumber (props w (pc_consumptionProperty a))) (Fin 0)) (Fin 65535)"

definition pc_createService :: "PowerConsumptionAbility \<Rightarrow> world \<Rightarrow> history \<times> world" where
  "pc_createService a w =
     (let (service, w1) =
            FakeGatoHistoryService_new ''energy''
              \<lparr>storage = ''fs'',
               path = storagePath w @ ''/accessories'',
               filename = dev_id w @ ''_persist.json'',
               minutes = 10\<rparr> w
      in (service,
          setCharacteristic (sid (inner service)) TotalConsumptionCharacteristic
            (Number (pc_consumption a w1)) w1))"

definition pc_setupEventHandlers :: "PowerConsumptionAbility \<Rightarrow> world \<Rightarrow> world" where
  "pc_setupEventHandlers a w =
     on (''change:'' @ pc_consumptionProperty a)
        PowerConsumptionAbility_consumptionChangeHandler (pc_this a)
        (Ability_setupEventHandlers w)"

text \<open>
  The loop \<^verbatim>\<open>for (const s of this.platformAccessory.services)\<close> of \<^verbatim>\<open>setup\<close>. The
  array iterator holds an index \<open>i\<close> into the live array and stops when \<open>i\<close> reaches its
  current length; \<^verbatim>\<open>removeService\<close> shortens that same array while the loop runs.
\<close>

function remove_stale :: "nat \<Rightarrow> service list \<Rightarrow> service list" where
  "remove_stale i svcs =
     (if i < length svcs
      then (let s = svcs ! i
            in if UUID s = FakeGatoHistoryService_UUID
               then remove_stale (i + 1) (removeService s svcs)
               else remove_stale (i + 1) svcs)
      else svcs)"
  by pat_completeness auto
termination
  by (relation "measure (\<lambda>(i, svcs). length svcs - i)")
     (auto simp: removeService_def length_remove1)

declare remove_stale.simps [simp del]

definition pc_setup ::
  "PowerConsumptionAbility \<Rightarrow> world \<Rightarrow> PowerConsumptionAbility \<times> world" where
  "pc_setup a w =
     (let (a1, w1) =
            (if pc_service a = None
             then (let w0 = w\<lparr>services := remove_stale 0 (services w)\<rparr>;
                       (service, w') = pc_createService a w0
                   in (a\<lparr>pc_service := Some service\<rparr>, w'))
             else (a, w))
      in (a1, pc_setupEventHandlers a1 w1))"

text \<open>
  The change handler. \<^verbatim>\<open>this.service\<close> is the field \<^verbatim>\<open>_service\<close>, the history object
  itself: the handler writes the characteristic on that object (\<open>hid\<close>) and calls its
  \<^verbatim>\<open>addEntry\<close>, whereas \<^verbatim>\<open>_createService\<close> seeded the characteristic of its
  \<^verbatim>\<open>.service\<close>. Before \<^verbatim>\<open>setup\<close> the field is \<^verbatim>\<open>undefined\<close> and the call on it
  throws. The entry's fields are evaluated after the write: the clock, then the
  consumption once more.
\<close>

definition pc_consumptionChangeHandler ::
  "PowerConsumptionAbility \<Rightarrow> jsval \<Rightarrow> world \<Rightarrow> error + world" where
  "pc_consumptionChangeHandler a newValue w =
     (case pc_service a of
        None \<Rightarrow> Inl TypeError
      | Some h \<Rightarrow>
          (let w1 = setCharacteristic (hid h) TotalConsumptionCharacteristic
                      (Number (pc_consumption a w)) w;
               w2 = addEntry h
                      \<lparr>entry_time = Math_round (of_int (clock w1) / 1000),
                       entry_power = pc_consumption a w1\<rparr> w1
           in Inr w2))"

definition pc_detach :: "PowerConsumptionAbility \<Rightarrow> world \<Rightarrow> world" where
  "pc_detach a w =
     Ability_detach
       (removeListener (''change:'' @ pc_consumptionProperty a)
          PowerConsumptionAbility_consumptionChangeHandler (pc_this a) w)"

section \<open>Example inputs\<close>

text \<open>A device with three readings, an accessory without services, the clock at 1.5 s.\<close>

definition example_props :: "string \<Rightarrow> jsval" where
  "example_props name =
     (if name = ''power0'' then Number (Fin 70000)
      else if name = ''current0'' then Number (Fin (3 / 2))
      else if name = ''voltage0'' then Number (Fin 230)
      else Undefined)"

definition example_world :: world where
  "example_world =
     \<lparr>dev_id = ''ABC123'', props = example_props, listeners = [], services = [],
      writes = [], constructed = [], entries = [], clock = 1500,
      storagePath = ''/var/lib/homebridge'', next_oid = 20\<rparr>"

definition example_pm :: PowerMeterAbility where
  "example_pm =
     \<lparr>pm_this = 7, pm_consumptionProperty = ''power0'',
      pm_electricCurrentProperty = Some ''current0'', pm_voltageProperty = None\<rparr>"

definition example_pc :: PowerConsumptionAbility where
  "example_pc = \<lparr>pc_this = 8, pc_consumptionProperty = ''power0'', pc_service = None\<rparr>"

text \<open>The history ability once \<^verbatim>\<open>setup\<close> has given it a history object.\<close>

definition example_history :: history where
  "example_history =
     \<lparr>hid = 4, kind = ''energy'',
      opts = \<lparr>storage = ''fs'', path = ''/var/lib/homebridge/accessories'',
              filename = ''ABC123_persist.json'', minutes = 10\<rparr>,
      inner = \<lparr>sid = 5, UUID = FakeGatoHistoryService_UUID\<rparr>\<rparr>"

definition example_pc_attached :: PowerConsumptionAbility where
  "example_pc_attached = example_pc\<lparr>pc_service := Some example_history\<rparr>"

text \<open>The same accessory holding a power-meter service.\<close>

definition example_world_pm :: world where
  "example_world_pm =
     example_world\<lparr>services := [\<lparr>sid = 3, UUID = PowerMeterService_UUID\<rparr>]\<rparr>"

definition example_pm_all :: PowerMeterAbility where
  "example_pm_all = example_pm\<lparr>pm_voltageProperty := Some ''voltage0''\<rparr>"

definition example_pm_only :: PowerMeterAbility where
  "example_pm_only = example_pm\<lparr>pm_electricCurrentProperty := None\<rparr>"

text \<open>A device on which other parties already listen to the same event.\<close>

definition example_world_listening :: world where
  "example_world_listening =
     example_world\<lparr>listeners :=
       [(''change:power0'', OtherHandler 1, 99),
        (''change:power0'', PowerMeterAbility_consumptionChangeHandler, 42),
        (''change:power0'', PowerConsumptionAbility_consumptionChangeHandler, 43)]\<rparr>"

section \<open>The registrations the spec expects\<close>

text \<open>
  Following the spec's words, "one change listener per configured property": the
  registration for the consumption property, then one for the electric-current property
  and one for the voltage property where that property is configured. A property counts
  as configured when the code's own test accepts it (\<open>truthy\<close>: neither \<^verbatim>\<open>null\<close>
  nor the empty string).
\<close>

definition pm_registrations :: "PowerMeterAbility \<Rightarrow> listener list" where
  "pm_registrations a =
     [(''change:'' @ pm_consumptionProperty a,
       PowerMeterAbility_consumptionChangeHandler, pm_this a)]
     @ (if truthy (pm_electricCurrentProperty a)
        then [(''change:'' @ ToString (pm_electricCurrentProperty a),
               PowerMeterAbility_electricCurrentChangeHandler, pm_this a)]
        else [])
     @ (if truthy (pm_voltageProperty a)
        then [(''change:'' @ ToString (pm_voltageProperty a),
               PowerMeterAbility_voltageChangeHandler, pm_this a)]
        else [])"

definition pc_registration :: "PowerConsumptionAbility \<Rightarrow> listener" where
  "pc_registration b =
     (''change:'' @ pc_consumptionProperty b,
      PowerConsumptionAbility_consumptionChangeHandler, pc_this b)"

text \<open>An accessory that already carries one history service.\<close>

definition example_world_stale1 :: world where
  "example_world_stale1 =
     example_world\<lparr>services :=
       [\<lparr>sid = 3, UUID = PowerMeterService_UUID\<rparr>,
        \<lparr>sid = 10, UUID = FakeGatoHistoryService_UUID\<rparr>]\<rparr>"

section \<open>The history services of an accessory\<close>

text \<open>
  The services on the platform accessory whose UUID is that of the history-service type,
  in array order: the "same-type" services of the spec.
\<close>

definition history_services :: "world \<Rightarrow> service list" where
  "history_services w = filter (\<lambda>s. UUID s = FakeGatoHistoryService_UUID) (services w)"

section \<open>The clamp of the consumption reading\<close>

lemma clamp_commute:
  "Math_min (Math_max n (Fin 0)) (Fin 65535) = Math_max (Fin 0) (Math_min n (Fin 65535))"
  by (cases n) (simp_all add: max_def min_def)

text \<open>
  C2. In both abilities the consumption accessor gives max(0, min(v, 65535)) of the
  device's reading v: as an identity of \<^verbatim>\<open>Math.max\<close> and \<^verbatim>\<open>Math.min\<close> for every value the
  property can hold (NaN stays NaN), and as the clamp of the rational for every finite
  reading.
\<close>

theorem consumption_clamped:
  "pm_consumption a w =
     Math_max (Fin 0) (Math_min (ToNumber (props w (pm_consumptionProperty a))) (Fin 65535))
   \<and> pc_consumption b w =
     Math_max (Fin 0) (Math_min (ToNumber (props w (pc_consumptionProperty b))) (Fin 65535))
   \<and> (props w (pm_consumptionProperty a) = Number (Fin r) \<longrightarrow>
        pm_consumption a w = Fin (max 0 (min r 65535)))
   \<and> (props w (pc_consumptionProperty b) = Number (Fin r) \<longrightarrow>
        pc_consumption b w = Fin (max 0 (min r 65535)))"
  by (auto simp: pm_consumption_def pc_consumption_def clamp_commute max_def min_def)

theorem consumption_clamped_witness:
  "pm_consumption example_pm example_world = Fin 65535
   \<and> pc_consumption example_pc example_world = Fin 65535"
  using consumption_clamped [of example_pm example_world example_pc 70000]
  by (simp add: example_pm_def example_pc_def example_world_def example_props_def)

section \<open>The consumption-change handlers\<close>

text \<open>
  For an integer number of milliseconds, \<^verbatim>\<open>Math.round(ms / 1000)\<close> is the integer
  quotient of \<open>ms + 500\<close> by 1000.
\<close>

lemma Math_round_div: "Math_round (of_int n / 1000) = (n + 500) div 1000"
proof -
  have "rat_of_int n / 1000 + 1 / 2 = rat_of_int (n + 500) / rat_of_int 1000"
    by simp
  then show ?thesis
    unfolding Math_round_def by (simp only: floor_divide_of_int_eq)
qed

text \<open>
  C1, as amended. For every consumption-change event that reaches the history ability
  after \<^verbatim>\<open>setup\<close> (so that \<^verbatim>\<open>_service\<close> is set), the handler returns normally and
  appends exactly one history entry. Its timestamp is the event time in seconds rounded to
  the nearest whole second, a half going up: \<open>(ms + 500) div 1000\<close> for the clock
  reading \<open>ms\<close>, not the floor \<open>ms div 1000\<close>.
\<close>

theorem history_entry_rounded:
  "pc_service a = Some h \<Longrightarrow>
     \<exists>w'. pc_consumptionChangeHandler a newValue w = Inr w'
        \<and> entries w' = entries w @
             [(hid h, \<lparr>entry_time = (clock w + 500) div 1000,
                       entry_power = pc_consumption a w\<rparr>)]"
  by (simp add: pc_consumptionChangeHandler_def setCharacteristic_def addEntry_def
        Math_round_div pc_consumption_def Let_def)

theorem history_entry_rounded_witness:
  "\<exists>w'. pc_consumptionChangeHandler example_pc_attached (Number (Fin 70000)) example_world
           = Inr w'
      \<and> entries w' = [(4, \<lparr>entry_time = 2, entry_power = Fin 65535\<rparr>)]"
  using history_entry_rounded [of example_pc_attached example_history
          "Number (Fin 70000)" example_world]
  by (simp add: example_pc_attached_def example_pc_def example_history_def
        example_world_def example_props_def pc_consumption_def)

text \<open>
  C1 as stated fails: with the clock at 1500 ms the entry appended carries the
  timestamp 2, and the floor of 1.5 s is 1.
\<close>

theorem history_entry_floor_counterexample:
  "map_sum id (map (entry_time \<circ> snd) \<circ> entries)
     (pc_consumptionChangeHandler example_pc_attached (Number (Fin 70000)) example_world)
   \<noteq> Inr [\<lfloor>rat_of_int (clock example_world) / 1000\<rfloor>]"
proof -
  have "\<lfloor>rat_of_int 1500 / rat_of_int 1000\<rfloor> = 1500 div 1000"
    by (rule floor_divide_of_int_eq)
  then have "\<lfloor>rat_of_int (clock example_world) / 1000\<rfloor> = 1"
    by (simp add: example_world_def)
  then show ?thesis
    by (simp add: pc_consumptionChangeHandler_def setCharacteristic_def addEntry_def
          Math_round_div example_pc_attached_def example_pc_def example_history_def
          example_world_def Let_def)
qed

text \<open>
  C3. A consumption-change event makes the handler write exactly once, to the
  consumption characteristic, the clamped value max(0, min(v, 65535)) of the reading v the
  device holds at that moment. The live-metrics handler writes to the power-meter service
  of the accessory, the history handler to its history object; each returns normally
  whenever that object exists, which is what attaching the ability provides.
\<close>

theorem consumption_change_one_write:
  "(pm_service w = Some s \<longrightarrow>
      (\<exists>w'. pm_consumptionChangeHandler a newValue w = Inr w'
         \<and> writes w' = writes w @
              [(sid s, ConsumptionCharacteristic,
                Number (Math_max (Fin 0)
                  (Math_min (ToNumber (props w (pm_consumptionProperty a))) (Fin 65535))))]))
   \<and> (pc_service b = Some h \<longrightarrow>
      (\<exists>w'. pc_consumptionChangeHandler b newValue w = Inr w'
         \<and> writes w' = writes w @
              [(hid h, TotalConsumptionCharacteristic,
                Number (Math_max (Fin 0)
                  (Math_min (ToNumber (props w (pc_consumptionProperty b))) (Fin 65535))))]))"
  by (simp add: pm_consumptionChangeHandler_def pc_consumptionChangeHandler_def
        setCharacteristic_def addEntry_def pm_consumption_def pc_consumption_def
        clamp_commute Let_def)

theorem consumption_change_one_write_witness:
  "(\<exists>w'. pm_consumptionChangeHandler example_pm (Number (Fin 70000)) example_world_pm = Inr w'
       \<and> writes w' = [(3, ConsumptionCharacteristic, Number (Fin 65535))])
   \<and> (\<exists>w'. pc_consumptionChangeHandler example_pc_attached (Number (Fin 70000))
              example_world_pm = Inr w'
       \<and> writes w' = [(4, TotalConsumptionCharacteristic, Number (Fin 65535))])"
  using consumption_change_one_write [of example_world_pm
          "\<lparr>sid = 3, UUID = PowerMeterService_UUID\<rparr>" example_pm "Number (Fin 70000)"
          example_pc_attached example_history]
  by (simp add: example_world_pm_def example_world_def example_pm_def example_pc_attached_def
        example_pc_def example_history_def example_props_def pm_service_def getService_def)

text \<open>
  C10. In one consumption-change event of the history ability, the power stored in the
  appended entry is the value written to the total-consumption characteristic: both are
  the clamped reading, and the device's reading does not change between the two reads.
\<close>

theorem entry_power_is_written_value:
  "pc_service a = Some h \<Longrightarrow>
     \<exists>w' v t. pc_consumptionChangeHandler a newValue w = Inr w'
        \<and> writes w' = writes w @ [(hid h, TotalConsumptionCharacteristic, Number v)]
        \<and> entries w' = entries w @ [(hid h, \<lparr>entry_time = t, entry_power = v\<rparr>)]
        \<and> v = pc_consumption a w"
  by (simp add: pc_consumptionChangeHandler_def setCharacteristic_def addEntry_def
        pc_consumption_def Let_def)

theorem entry_power_is_written_value_witness:
  "\<exists>w' v t. pc_consumptionChangeHandler example_pc_attached Null example_world = Inr w'
        \<and> writes w' = [(4, TotalConsumptionCharacteristic, Number v)]
        \<and> entries w' = [(4, \<lparr>entry_time = t, entry_power = v\<rparr>)]
        \<and> v = Fin 65535"
  using entry_power_is_written_value [of example_pc_attached example_history Null example_world]
  by (simp add: example_pc_attached_def example_pc_def example_history_def
        example_world_def example_props_def pc_consumption_def)

section \<open>Attaching and detaching\<close>

lemma pm_setupEventHandlers_eq:
  "pm_setupEventHandlers a w = w\<lparr>listeners := listeners w @ pm_registrations a\<rparr>"
  by (simp add: pm_setupEventHandlers_def Ability_setupEventHandlers_def on_def
        pm_registrations_def Let_def)

lemma pm_createService_listeners: "listeners (snd (pm_createService a w)) = listeners w"
  by (simp add: pm_createService_def PowerMeterService_new_def setCharacteristic_def Let_def)

lemma pm_setup_listeners: "listeners (pm_setup a w) = listeners w @ pm_registrations a"
  using pm_createService_listeners [of a w]
  by (auto simp: pm_setup_def pm_setupEventHandlers_eq addService_def split: prod.splits)

text \<open>Once attached, the live-metrics ability finds a power-meter service on the accessory.\<close>

lemma pm_setup_has_service: "pm_service (pm_setup a w) \<noteq> None"
  by (auto simp: pm_service_def getService_def pm_setup_def pm_createService_def
        PowerMeterService_new_def setCharacteristic_def pm_setupEventHandlers_eq
        addService_def Let_def find_None_iff)

lemma pc_setupEventHandlers_eq:
  "pc_setupEventHandlers b w = w\<lparr>listeners := listeners w @ [pc_registration b]\<rparr>"
  by (simp add: pc_setupEventHandlers_def Ability_setupEventHandlers_def on_def
        pc_registration_def)

lemma pc_createService_listeners: "listeners (snd (pc_createService b w)) = listeners w"
  by (simp add: pc_createService_def FakeGatoHistoryService_new_def setCharacteristic_def
        Let_def)

lemma pc_setup_registration: "pc_registration (fst (pc_setup b w)) = pc_registration b"
  by (simp add: pc_setup_def pc_registration_def Let_def split: prod.splits)

lemma pc_setup_listeners:
  "listeners (snd (pc_setup b w)) = listeners w @ [pc_registration b]"
  using pc_createService_listeners [of b "w\<lparr>services := remove_stale 0 (services w)\<rparr>"]
  by (auto simp: pc_setup_def pc_setupEventHandlers_eq pc_registration_def Let_def
        split: prod.splits)

text \<open>
  C4. Attaching the live-metrics ability adds to the device's emitter exactly the
  registrations of \<open>pm_registrations\<close>, after those already there: one listener when
  only the consumption property is configured, one more when the electric-current property
  is configured, one more when the voltage property is configured, three with all of them.
  This holds for \<^verbatim>\<open>_setupEventHandlers\<close> and for the whole of \<^verbatim>\<open>setup\<close>. The history
  ability adds exactly one.
\<close>

theorem attach_registers_listeners:
  "listeners (pm_setupEventHandlers a w) = listeners w @ pm_registrations a
   \<and> listeners (pm_setup a w) = listeners w @ pm_registrations a
   \<and> length (pm_registrations a) =
       1 + (if truthy (pm_electricCurrentProperty a) then 1 else 0)
         + (if truthy (pm_voltageProperty a) then 1 else 0)
   \<and> listeners (pc_setupEventHandlers b w) = listeners w @ [pc_registration b]
   \<and> listeners (snd (pc_setup b w)) = listeners w @ [pc_registration b]"
  by (simp add: pm_setupEventHandlers_eq pm_setup_listeners pc_setupEventHandlers_eq
        pc_setup_listeners pm_registrations_def)

theorem attach_registers_listeners_witness:
  "length (listeners (pm_setup example_pm_only example_world)) = 1
   \<and> length (listeners (pm_setup example_pm example_world)) = 2
   \<and> length (listeners (pm_setup example_pm_all example_world)) = 3
   \<and> length (listeners (snd (pc_setup example_pc example_world))) = 1"
  using attach_registers_listeners [of example_pm_only example_world example_pc]
        attach_registers_listeners [of example_pm example_world example_pc]
        attach_registers_listeners [of example_pm_all example_world example_pc]
  by (simp add: example_pm_only_def example_pm_all_def example_pm_def example_world_def)

lemma pm_detach_eq:
  "pm_detach a w = w\<lparr>listeners := filter (\<lambda>l. l \<notin> set (pm_registrations a)) (listeners w)\<rparr>"
  by (auto simp: pm_detach_def Ability_detach_def removeListener_def pm_registrations_def
        Let_def intro: filter_cong)

lemma pc_detach_eq:
  "pc_detach b w = w\<lparr>listeners := filter (\<lambda>l. l \<noteq> pc_registration b) (listeners w)\<rparr>"
  by (simp add: pc_detach_def Ability_detach_def removeListener_def pc_registration_def)

lemma filter_disjoint: "set xs \<inter> set ys = {} \<Longrightarrow> filter (\<lambda>l. l \<notin> set ys) xs = xs"
  by (induction xs) auto

text \<open>
  C5. \<^verbatim>\<open>detach\<close> changes nothing but the emitter, where it drops the registrations
  that attaching added (those of \<open>pm_registrations\<close>, one per configured property,
  respectively the single consumption registration of the history ability) and keeps
  every other registration, in order. So \<^verbatim>\<open>detach\<close> after attaching (after
  \<^verbatim>\<open>_setupEventHandlers\<close> alone, and after the whole of \<^verbatim>\<open>setup\<close>) gives back the
  listeners of before, for every configuration of properties, on any emitter that did not
  already hold a registration of this very ability.
\<close>

theorem detach_removes_attached:
  "pm_detach a w1 =
     w1\<lparr>listeners := filter (\<lambda>l. l \<notin> set (pm_registrations a)) (listeners w1)\<rparr>
   \<and> listeners (pm_detach a (pm_setupEventHandlers a w)) =
       filter (\<lambda>l. l \<notin> set (pm_registrations a)) (listeners w)
   \<and> listeners (pm_detach a (pm_setup a w)) =
       filter (\<lambda>l. l \<notin> set (pm_registrations a)) (listeners w)
   \<and> (set (listeners w) \<inter> set (pm_registrations a) = {} \<longrightarrow>
        listeners (pm_detach a (pm_setupEventHandlers a w)) = listeners w
        \<and> listeners (pm_detach a (pm_setup a w)) = listeners w)
   \<and> pc_detach b w1 =
       w1\<lparr>listeners := filter (\<lambda>l. l \<noteq> pc_registration b) (listeners w1)\<rparr>
   \<and> listeners (pc_detach (fst (pc_setup b w)) (snd (pc_setup b w))) =
       filter (\<lambda>l. l \<noteq> pc_registration b) (listeners w)
   \<and> (pc_registration b \<notin> set (listeners w) \<longrightarrow>
        listeners (pc_detach (fst (pc_setup b w)) (snd (pc_setup b w))) = listeners w)"
proof -
  have pm0: "listeners (pm_detach a (pm_setupEventHandlers a w)) =
       filter (\<lambda>l. l \<notin> set (pm_registrations a)) (listeners w)"
    by (simp add: pm_detach_eq pm_setupEventHandlers_eq)
  have pm: "listeners (pm_detach a (pm_setup a w)) =
       filter (\<lambda>l. l \<notin> set (pm_registrations a)) (listeners w)"
    by (simp add: pm_detach_eq pm_setup_listeners)
  have pc: "listeners (pc_detach (fst (pc_setup b w)) (snd (pc_setup b w))) =
       filter (\<lambda>l. l \<noteq> pc_registration b) (listeners w)"
    by (simp add: pc_detach_eq pc_setup_listeners pc_setup_registration)
  have pm_id: "set (listeners w) \<inter> set (pm_registrations a) = {} \<longrightarrow>
        listeners (pm_detach a (pm_setupEventHandlers a w)) = listeners w
        \<and> listeners (pm_detach a (pm_setup a w)) = listeners w"
    by (simp add: pm0 pm filter_disjoint)
  have pc_id: "pc_registration b \<notin> set (listeners w) \<longrightarrow>
        listeners (pc_detach (fst (pc_setup b w)) (snd (pc_setup b w))) = listeners w"
    using filter_disjoint [of "listeners w" "[pc_registration b]"] by (simp add: pc)
  show ?thesis
    using pm0 pm pc pm_id pc_id by (simp add: pm_detach_eq pc_detach_eq)
qed

theorem detach_removes_attached_witness:
  "listeners (pm_detach example_pm (pm_setupEventHandlers example_pm example_world_listening)) =
     listeners example_world_listening
   \<and> listeners (pm_detach example_pm (pm_setup example_pm example_world_listening)) =
     listeners example_world_listening
   \<and> listeners (pc_detach (fst (pc_setup example_pc example_world_listening))
                  (snd (pc_setup example_pc example_world_listening))) =
     listeners example_world_listening"
  using detach_removes_attached [of example_pm example_world example_world_listening example_pc]
  by (simp add: example_world_listening_def example_world_def example_pm_def example_pc_def
        pm_registrations_def pc_registration_def)

section \<open>Seeding the power-meter service\<close>

text \<open>
  C8. \<^verbatim>\<open>_createService\<close> of the live-metrics ability makes one new power-meter service
  and writes to it, in this order: the clamped consumption; the electric current if and
  only if an electric-current property is configured; the voltage if and only if a
  voltage property is configured. It makes no other write.
\<close>

theorem createService_seeds:
  "fst (pm_createService a w) = \<lparr>sid = next_oid w, UUID = PowerMeterService_UUID\<rparr>
   \<and> writes (snd (pm_createService a w)) =
       writes w
       @ [(next_oid w, ConsumptionCharacteristic,
           Number (Math_max (Fin 0)
             (Math_min (ToNumber (props w (pm_consumptionProperty a))) (Fin 65535))))]
       @ (if truthy (pm_electricCurrentProperty a)
          then [(next_oid w, ElectricCurrentCharacteristic,
                 props w (ToString (pm_electricCurrentProperty a)))]
          else [])
       @ (if truthy (pm_voltageProperty a)
          then [(next_oid w, VoltageCharacteristic,
                 props w (ToString (pm_voltageProperty a)))]
          else [])
   \<and> (ElectricCurrentCharacteristic \<in>
         (fst \<circ> snd) ` set (drop (length (writes w)) (writes (snd (pm_createService a w))))
       \<longleftrightarrow> truthy (pm_electricCurrentProperty a))
   \<and> (VoltageCharacteristic \<in>
         (fst \<circ> snd) ` set (drop (length (writes w)) (writes (snd (pm_createService a w))))
       \<longleftrightarrow> truthy (pm_voltageProperty a))"
  by (simp add: pm_createService_def PowerMeterService_new_def setCharacteristic_def
        pm_consumption_def pm_electricCurrent_def pm_voltage_def clamp_commute Let_def)

theorem createService_seeds_witness:
  "writes (snd (pm_createService example_pm example_world)) =
     [(20, ConsumptionCharacteristic, Number (Fin 65535)),
      (20, ElectricCurrentCharacteristic, Number (Fin (3 / 2)))]
   \<and> writes (snd (pm_createService example_pm_only example_world)) =
     [(20, ConsumptionCharacteristic, Number (Fin 65535))]"
  using createService_seeds [of example_pm example_world]
        createService_seeds [of example_pm_only example_world]
  by (simp add: example_pm_only_def example_pm_def example_world_def example_props_def
        pm_consumption_def)

text \<open>
  C9. The electric-current and voltage accessors give the device's value as it is; the
  value the change handlers write and the value \<^verbatim>\<open>_createService\<close> seeds is that value
  \<open>v\<close>, whatever it is, with no clamp.
\<close>

theorem current_and_voltage_unchanged:
  "pm_electricCurrent a w = props w (ToString (pm_electricCurrentProperty a))
   \<and> pm_voltage a w = props w (ToString (pm_voltageProperty a))
   \<and> (pm_service w = Some s \<longrightarrow> pm_electricCurrentProperty a = Some p \<longrightarrow> props w p = v \<longrightarrow>
        pm_electricCurrentChangeHandler a newValue w =
          Inr (w\<lparr>writes := writes w @ [(sid s, ElectricCurrentCharacteristic, v)]\<rparr>))
   \<and> (pm_service w = Some s \<longrightarrow> pm_voltageProperty a = Some p \<longrightarrow> props w p = v \<longrightarrow>
        pm_voltageChangeHandler a newValue w =
          Inr (w\<lparr>writes := writes w @ [(sid s, VoltageCharacteristic, v)]\<rparr>))
   \<and> (pm_electricCurrentProperty a = Some p \<longrightarrow> p \<noteq> [] \<longrightarrow> props w p = v \<longrightarrow>
        (next_oid w, ElectricCurrentCharacteristic, v)
          \<in> set (writes (snd (pm_createService a w))))
   \<and> (pm_voltageProperty a = Some p \<longrightarrow> p \<noteq> [] \<longrightarrow> props w p = v \<longrightarrow>
        (next_oid w, VoltageCharacteristic, v)
          \<in> set (writes (snd (pm_createService a w))))"
  by (simp add: pm_electricCurrentChangeHandler_def pm_voltageChangeHandler_def
        pm_createService_def PowerMeterService_new_def setCharacteristic_def
        pm_electricCurrent_def pm_voltage_def Let_def)

theorem current_and_voltage_unchanged_witness:
  "pm_electricCurrentChangeHandler example_pm Null example_world_pm =
     Inr (example_world_pm\<lparr>writes := [(3, ElectricCurrentCharacteristic, Number (Fin (3 / 2)))]\<rparr>)
   \<and> pm_voltageChangeHandler example_pm_all Null example_world_pm =
     Inr (example_world_pm\<lparr>writes := [(3, VoltageCharacteristic, Number (Fin 230))]\<rparr>)
   \<and> (20, ElectricCurrentCharacteristic, Number (Fin (3 / 2)))
        \<in> set (writes (snd (pm_createService example_pm example_world_pm)))
   \<and> (20, VoltageCharacteristic, Number (Fin 230))
        \<in> set (writes (snd (pm_createService example_pm_all example_world_pm)))"
  using current_and_voltage_unchanged [of example_pm example_world_pm
          "\<lparr>sid = 3, UUID = PowerMeterService_UUID\<rparr>" "''current0''" "Number (Fin (3 / 2))" Null]
        current_and_voltage_unchanged [of example_pm_all example_world_pm
          "\<lparr>sid = 3, UUID = PowerMeterService_UUID\<rparr>" "''voltage0''" "Number (Fin 230)" Null]
  by (simp add: example_pm_all_def example_pm_def example_world_pm_def example_world_def
        example_props_def pm_service_def getService_def)

section \<open>Setting up the history service\<close>

text \<open>
  What \<^verbatim>\<open>setup\<close> does on an ability without a history object: the stale-service
  loop, one construction with the kind "energy", a 10-minute window and the file
  name \<^verbatim>\<open>device.id + '_persist.json'\<close>, one seeding write, one registration. On an
  ability that has its history object, only the registration.
\<close>

lemma pc_setup_fresh:
  "pc_service a = None \<Longrightarrow>
     pc_setup a w =
       (let h = \<lparr>hid = next_oid w, kind = ''energy'',
                 opts = \<lparr>storage = ''fs'', path = storagePath w @ ''/accessories'',
                         filename = dev_id w @ ''_persist.json'', minutes = 10\<rparr>,
                 inner = \<lparr>sid = next_oid w + 1, UUID = FakeGatoHistoryService_UUID\<rparr>\<rparr>
        in (a\<lparr>pc_service := Some h\<rparr>,
            w\<lparr>services := remove_stale 0 (services w) @ [inner h],
              constructed := constructed w @ [h],
              next_oid := next_oid w + 2,
              writes := writes w @
                [(next_oid w + 1, TotalConsumptionCharacteristic, Number (pc_consumption a w))],
              listeners := listeners w @ [pc_registration a]\<rparr>))"
  by (simp add: pc_setup_def pc_createService_def FakeGatoHistoryService_new_def
        setCharacteristic_def pc_setupEventHandlers_eq pc_registration_def pc_consumption_def
        Let_def)

lemma pc_setup_again:
  "pc_service a = Some h \<Longrightarrow>
     pc_setup a w = (a, w\<lparr>listeners := listeners w @ [pc_registration a]\<rparr>)"
  by (simp add: pc_setup_def pc_setupEventHandlers_eq)

lemma pc_setup_sets_service: "pc_service (fst (pc_setup a w)) \<noteq> None"
  by (cases "pc_service a") (simp_all add: pc_setup_fresh pc_setup_again Let_def)

text \<open>On an accessory that carries no history service the loop removes nothing.\<close>

lemma remove_stale_clean:
  "\<forall>s \<in> set svcs. UUID s \<noteq> FakeGatoHistoryService_UUID \<Longrightarrow> remove_stale i svcs = svcs"
proof (induction i svcs rule: remove_stale.induct)
  case (1 i svcs)
  show ?case
  proof (cases "i < length svcs")
    case True
    then have "UUID (svcs ! i) \<noteq> FakeGatoHistoryService_UUID"
      using "1.prems" by simp
    then have "remove_stale i svcs = remove_stale (i + 1) svcs"
      using True by (subst remove_stale.simps) simp
    also have "\<dots> = svcs"
      using "1.IH"(2) [OF True refl \<open>UUID (svcs ! i) \<noteq> FakeGatoHistoryService_UUID\<close> "1.prems"] .
    finally show ?thesis .
  next
    case False
    then show ?thesis by (subst remove_stale.simps) simp
  qed
qed

text \<open>
  C6. A second \<^verbatim>\<open>setup\<close> of the history ability, after the first has given it its
  history object, constructs no history service and removes no service: the services of
  the accessory, the constructions made and the ability's history object are those left
  by the first \<^verbatim>\<open>setup\<close>. Where the first \<^verbatim>\<open>setup\<close> started without a history object
  and its loop left no stale history service behind, the accessory ends with exactly one
  history service, the one constructed by the first \<^verbatim>\<open>setup\<close>.
\<close>

theorem setup_twice_same_service:
  "services (snd (pc_setup (fst (pc_setup a w)) (snd (pc_setup a w))))
     = services (snd (pc_setup a w))
   \<and> constructed (snd (pc_setup (fst (pc_setup a w)) (snd (pc_setup a w))))
     = constructed (snd (pc_setup a w))
   \<and> pc_service (fst (pc_setup (fst (pc_setup a w)) (snd (pc_setup a w))))
     = pc_service (fst (pc_setup a w))
   \<and> pc_service (fst (pc_setup a w)) \<noteq> None
   \<and> (pc_service a = None \<longrightarrow>
       (\<forall>s \<in> set (remove_stale 0 (services w)). UUID s \<noteq> FakeGatoHistoryService_UUID) \<longrightarrow>
       (\<exists>h. pc_service (fst (pc_setup a w)) = Some h
          \<and> constructed (snd (pc_setup (fst (pc_setup a w)) (snd (pc_setup a w))))
              = constructed w @ [h]
          \<and> filter (\<lambda>s. UUID s = FakeGatoHistoryService_UUID)
               (services (snd (pc_setup (fst (pc_setup a w)) (snd (pc_setup a w)))))
              = [inner h]))"
proof -
  obtain h where h: "pc_service (fst (pc_setup a w)) = Some h"
    using pc_setup_sets_service [of a w] by auto
  have again: "pc_setup (fst (pc_setup a w)) (snd (pc_setup a w)) =
      (fst (pc_setup a w),
       (snd (pc_setup a w))\<lparr>listeners :=
          listeners (snd (pc_setup a w)) @ [pc_registration (fst (pc_setup a w))]\<rparr>)"
    by (rule pc_setup_again [OF h])
  have single: "pc_service a = None \<longrightarrow>
       (\<forall>s \<in> set (remove_stale 0 (services w)). UUID s \<noteq> FakeGatoHistoryService_UUID) \<longrightarrow>
       (\<exists>h. pc_service (fst (pc_setup a w)) = Some h
          \<and> constructed (snd (pc_setup a w)) = constructed w @ [h]
          \<and> filter (\<lambda>s. UUID s = FakeGatoHistoryService_UUID) (services (snd (pc_setup a w)))
              = [inner h])"
    by (simp add: pc_setup_fresh Let_def filter_empty_conv)
  show ?thesis
    using h single by (simp add: again)
qed


lemma remove_stale_example1:
  "remove_stale 0 (services example_world_stale1) = [\<lparr>sid = 3, UUID = PowerMeterService_UUID\<rparr>]"
  by (simp add: example_world_stale1_def example_world_def remove_stale.simps
        removeService_def)

theorem setup_twice_same_service_witness:
  "services (snd (pc_setup (fst (pc_setup example_pc example_world_stale1))
                   (snd (pc_setup example_pc example_world_stale1))))
     = [\<lparr>sid = 3, UUID = PowerMeterService_UUID\<rparr>,
        \<lparr>sid = 21, UUID = FakeGatoHistoryService_UUID\<rparr>]
   \<and> length (constructed (snd (pc_setup (fst (pc_setup example_pc example_world_stale1))
                   (snd (pc_setup example_pc example_world_stale1))))) = 1
   \<and> filter (\<lambda>s. UUID s = FakeGatoHistoryService_UUID)
        (services (snd (pc_setup (fst (pc_setup example_pc example_world_stale1))
                   (snd (pc_setup example_pc example_world_stale1)))))
     = [\<lparr>sid = 21, UUID = FakeGatoHistoryService_UUID\<rparr>]"
proof -
  have none: "pc_service example_pc = None"
    by (simp add: example_pc_def)
  have clean: "\<forall>s \<in> set (remove_stale 0 (services example_world_stale1)).
                 UUID s \<noteq> FakeGatoHistoryService_UUID"
    by (simp add: remove_stale_example1)
  have once: "services (snd (pc_setup example_pc example_world_stale1))
      = [\<lparr>sid = 3, UUID = PowerMeterService_UUID\<rparr>,
         \<lparr>sid = 21, UUID = FakeGatoHistoryService_UUID\<rparr>]"
    by (simp add: pc_setup_fresh [OF none] Let_def remove_stale_example1)
       (simp add: example_world_stale1_def example_world_def)
  have built: "length (constructed (snd (pc_setup example_pc example_world_stale1))) = 1"
    by (simp add: pc_setup_fresh [OF none] Let_def)
       (simp add: example_world_stale1_def example_world_def)
  show ?thesis
    using setup_twice_same_service [of example_pc example_world_stale1] none clean once built
    by simp
qed

subsection \<open>The stale-service loop\<close>

text \<open>
  Where at most one service of the accessory has the history-service UUID, that service is
  the one the loop is looking at when it removes it, and no other service is skipped: the
  loop started at index \<open>i\<close> keeps the first \<open>i\<close> services and, of the rest, those of
  another type.
\<close>

lemma at_most_one_elsewhere:
  assumes one: "length (filter P xs) \<le> 1" and i: "i < length xs" and p: "P (xs ! i)"
  shows "\<forall>x \<in> set (take i xs) \<union> set (drop (Suc i) xs). \<not> P x"
proof -
  have "xs = take i xs @ xs ! i # drop (Suc i) xs"
    using i by (rule id_take_nth_drop)
  then have "filter P xs = filter P (take i xs @ xs ! i # drop (Suc i) xs)"
    by simp
  then have "filter P xs = filter P (take i xs) @ xs ! i # filter P (drop (Suc i) xs)"
    using p by simp
  then have "length (filter P (take i xs)) + Suc (length (filter P (drop (Suc i) xs))) \<le> 1"
    using one by simp
  then have "filter P (take i xs) = [] \<and> filter P (drop (Suc i) xs) = []"
    by simp
  then show ?thesis
    by (auto simp: filter_empty_conv)
qed

lemma remove_stale_at_most_one:
  "length (filter (\<lambda>s. UUID s = FakeGatoHistoryService_UUID) svcs) \<le> 1 \<Longrightarrow>
     remove_stale i svcs =
       take i svcs @ filter (\<lambda>s. UUID s \<noteq> FakeGatoHistoryService_UUID) (drop i svcs)"
proof (induction i svcs rule: remove_stale.induct)
  case (1 i svcs)
  show ?case
  proof (cases "i < length svcs")
    case False
    then show ?thesis
      by (subst remove_stale.simps) simp
  next
    case inside: True
    have split: "drop i svcs = svcs ! i # drop (Suc i) svcs"
      using inside by (simp add: Cons_nth_drop_Suc)
    show ?thesis
    proof (cases "UUID (svcs ! i) = FakeGatoHistoryService_UUID")
      case stale: True
      have others: "\<forall>x \<in> set (take i svcs) \<union> set (drop (Suc i) svcs).
                      UUID x \<noteq> FakeGatoHistoryService_UUID"
        using at_most_one_elsewhere [OF "1.prems" inside stale] .
      then have notin: "svcs ! i \<notin> set (take i svcs)"
        using stale by auto
      have "remove1 (svcs ! i) (take i svcs @ svcs ! i # drop (Suc i) svcs)
              = take i svcs @ drop (Suc i) svcs"
        using notin by (simp add: remove1_append)
      then have removed: "removeService (svcs ! i) svcs = take i svcs @ drop (Suc i) svcs"
        using id_take_nth_drop [OF inside] by (simp add: removeService_def)
      have "remove_stale i svcs = remove_stale (i + 1) (removeService (svcs ! i) svcs)"
        using inside stale by (subst remove_stale.simps) simp
      also have "\<dots> = take i svcs @ drop (Suc i) svcs"
        using others by (simp add: removed remove_stale_clean)
      also have "\<dots> = take i svcs
            @ filter (\<lambda>s. UUID s \<noteq> FakeGatoHistoryService_UUID) (drop i svcs)"
        using others stale by (simp add: split)
      finally show ?thesis .
    next
      case other: False
      have "remove_stale i svcs = remove_stale (i + 1) svcs"
        using inside other by (subst remove_stale.simps) simp
      also have "\<dots> = take (i + 1) svcs
            @ filter (\<lambda>s. UUID s \<noteq> FakeGatoHistoryService_UUID) (drop (i + 1) svcs)"
        using "1.IH"(2) [OF inside refl other "1.prems"] .
      also have "\<dots> = take i svcs
            @ filter (\<lambda>s. UUID s \<noteq> FakeGatoHistoryService_UUID) (drop i svcs)"
        using inside other by (simp add: split take_Suc_conv_app_nth)
      finally show ?thesis .
    qed
  qed
qed

lemma remove_stale_removes_all:
  "length (history_services w) \<le> 1 \<Longrightarrow>
     remove_stale 0 (services w) =
       filter (\<lambda>s. UUID s \<noteq> FakeGatoHistoryService_UUID) (services w)"
  using remove_stale_at_most_one [of "services w" 0] by (simp add: history_services_def)

text \<open>
  Every operation of the two abilities leaves an accessory with at most one history
  service in that state: \<^verbatim>\<open>setup\<close> of the history ability ends with at most one,
  attaching the live-metrics ability, both \<^verbatim>\<open>detach\<close> methods and the change handlers
  do not touch the history services.
\<close>

lemma pc_setup_keeps_at_most_one:
  "length (history_services w) \<le> 1 \<Longrightarrow> length (history_services (snd (pc_setup a w))) \<le> 1"
proof (cases "pc_service a")
  case None
  assume "length (history_services w) \<le> 1"
  then have "remove_stale 0 (services w) =
       filter (\<lambda>s. UUID s \<noteq> FakeGatoHistoryService_UUID) (services w)"
    by (rule remove_stale_removes_all)
  then show ?thesis
    by (simp add: pc_setup_fresh [OF None] Let_def history_services_def)
next
  case (Some h)
  assume "length (history_services w) \<le> 1"
  then show ?thesis
    by (simp add: pc_setup_again [OF Some] history_services_def)
qed

lemma pm_setup_history_services: "history_services (pm_setup a w) = history_services w"
  by (simp add: history_services_def pm_setup_def pm_createService_def
        PowerMeterService_new_def setCharacteristic_def pm_setupEventHandlers_eq
        addService_def Let_def)

lemma detach_history_services:
  "history_services (pm_detach a w) = history_services w"
  "history_services (pc_detach b w) = history_services w"
  by (simp_all add: history_services_def pm_detach_eq pc_detach_eq)

lemma handler_history_services:
  "pm_consumptionChangeHandler a v w = Inr w' \<Longrightarrow> history_services w' = history_services w"
  "pm_electricCurrentChangeHandler a v w = Inr w' \<Longrightarrow> history_services w' = history_services w"
  "pm_voltageChangeHandler a v w = Inr w' \<Longrightarrow> history_services w' = history_services w"
  "pc_consumptionChangeHandler b v w = Inr w' \<Longrightarrow> history_services w' = history_services w"
  by (auto simp: history_services_def pm_consumptionChangeHandler_def
        pm_electricCurrentChangeHandler_def pm_voltageChangeHandler_def
        pc_consumptionChangeHandler_def setCharacteristic_def addEntry_def Let_def
        split: option.splits)



end
